theory Spec2Isabelle
  imports Complex_Main "HOL-Library.Word"
begin

section \<open>Data model (ToolState.h, PowerToys.MeasureToolCore.h)\<close>

text \<open>
  Windows scalar types. \<open>HWND\<close> is a pointer-sized handle (the orchestrator
  \<open>bit_cast\<close>s a \<open>uint64_t\<close> into one). \<open>LONG\<close> is a 32-bit two's complement
  integer; a \<open>LONG\<close> value is represented by the integer it denotes, so it always lies in
  \<open>{- 2^31 ..< 2^31}\<close>. Values of type \<open>float\<close> are kept abstract: the type parameter
  \<open>'f\<close> stands for \<open>float\<close>, and the two operations the code uses on it (conversion from
  an integer, division) are parameters of the environment below.
\<close>

type_synonym HWND = "64 word"
type_synonym LONG = int
type_synonym MonitorInfo = nat
type_synonym ToolSessionCompleted = nat

record POINT =
  pt_x :: LONG
  pt_y :: LONG

record RECT =
  rect_left :: LONG
  rect_top :: LONG
  rect_right :: LONG
  rect_bottom :: LONG

text \<open>\<open>Box\<close> (common/Display/monitors.h) wraps a \<open>RECT\<close>.\<close>

record Box =
  rect :: RECT

record 'f ColorF =
  color_r :: 'f
  color_g :: 'f
  color_b :: 'f
  color_a :: 'f

text \<open>\<open>std::array<wchar_t, 32> buffer = {}\<close>\<close>

record OverlayBoxText =
  buffer :: "16 word list"

definition OverlayBoxText_init :: OverlayBoxText where
  "OverlayBoxText_init = \<lparr>buffer = replicate 32 0\<rparr>"

text \<open>\<open>POINT cursorPosSystemSpace = {}\<close>\<close>

definition POINT_init :: POINT where
  "POINT_init = \<lparr>pt_x = 0, pt_y = 0\<rparr>"

text \<open>
  \<open>struct CommonState\<close>. The completion callback is a \<open>std::function<void()>\<close>: empty
  (\<open>None\<close>) or a closure around the host's trigger.
\<close>

record 'f CommonState =
  sessionCompletedCallback :: "ToolSessionCompleted option"
  lineColor :: "'f ColorF"
  toolbarBoundingBox :: Box
  overlayBoxText :: OverlayBoxText
  cursorPosSystemSpace :: POINT
  closeOnOtherMonitors :: bool

text \<open>
  Both tool states hold a \<open>CommonState*\<close>. The only \<open>CommonState\<close> object of the program
  is the orchestrator's member \<open>_commonState\<close>, so a pointer is either null or the address
  of that member.
\<close>

datatype CommonState_ptr = nullptr | addr_commonState

record 'f BoundsPerScreen =
  currentRegionStart :: "('f \<times> 'f) option"
  measurements :: "('f \<times> 'f \<times> 'f \<times> 'f) list"

record 'f BoundsToolState =
  b_perScreen :: "HWND \<rightharpoonup> 'f BoundsPerScreen"
  b_commonState :: CommonState_ptr

datatype Mode = Horizontal | Vertical | Cross

record Global =
  pixelTolerance :: "8 word"
  continuousCapture :: bool
  drawFeetOnCross :: bool
  perColorChannelEdgeDetection :: bool
  mode :: Mode

text \<open>The default member initialisers of \<open>MeasureToolState::Global\<close>.\<close>

definition Global_init :: Global where
  "Global_init =
     \<lparr>pixelTolerance = 30, continuousCapture = True, drawFeetOnCross = True,
      perColorChannelEdgeDetection = False, mode = Cross\<rparr>"

definition RECT_init :: RECT where
  "RECT_init = \<lparr>rect_left = 0, rect_top = 0, rect_right = 0, rect_bottom = 0\<rparr>"

text \<open>The two \<open>com_ptr\<close>s of a per-screen record are null or name a GPU resource.\<close>

record MeasurePerScreen =
  cursorInLeftScreenHalf :: bool
  cursorInTopScreenHalf :: bool
  measuredEdges :: RECT
  capturedScreenTexture :: "nat option"
  capturedScreenBitmap :: "nat option"

definition MeasurePerScreen_init :: MeasurePerScreen where
  "MeasurePerScreen_init =
     \<lparr>cursorInLeftScreenHalf = False, cursorInTopScreenHalf = False,
      measuredEdges = RECT_init, capturedScreenTexture = None, capturedScreenBitmap = None\<rparr>"

record MeasureToolState =
  global :: Global
  m_perScreen :: "HWND \<rightharpoonup> MeasurePerScreen"
  m_commonState :: CommonState_ptr

text \<open>A value-initialised \<open>MeasureToolState\<close> and \<open>BoundsToolState\<close>.\<close>

definition MeasureToolState_init :: MeasureToolState where
  "MeasureToolState_init =
     \<lparr>global = Global_init, m_perScreen = Map.empty, m_commonState = nullptr\<rparr>"

definition BoundsToolState_init :: "'f BoundsToolState" where
  "BoundsToolState_init = \<lparr>b_perScreen = Map.empty, b_commonState = nullptr\<rparr>"

text \<open>
  \<open>Settings\<close> (Settings.h): the fields the orchestrator reads. \<open>lineColor\<close> is indexed at
  0, 1 and 2.
\<close>

record Settings =
  settings_continuousCapture :: bool
  settings_drawFeetOnCross :: bool
  settings_pixelTolerance :: "8 word"
  settings_perColorChannelEdgeDetection :: bool
  settings_lineColor :: "8 word \<times> 8 word \<times> 8 word"

record OverlayUIState =
  overlayWindowHandle :: HWND
  overlayMonitor :: MonitorInfo

text \<open>
  A \<open>std::thread\<close> of \<open>_screenCaptureThreads\<close>: what it was started on, and whether it
  is still joinable.
\<close>

record capture_thread =
  thread_window :: HWND
  thread_monitor :: MonitorInfo
  joinable :: bool

text \<open>The cursor poll thread \<open>_mouseCaptureThread\<close>.\<close>

datatype poll_thread = PollRunning | PollJoined

text \<open>
  The effects the orchestrator has on the world outside its own members, in the order
  in which it performs them.
\<close>

datatype event =
    EvRegisterProvider
  | EvInitLogger
  | EvSetStopEvent
  | EvJoinMouseThread
  | EvDestroyOverlay HWND
  | EvJoinCaptureThread HWND
  | EvLoadSettings
  | EvCreateOverlay HWND
  | EvStartCapturingThread HWND MonitorInfo
  | EvBoundsToolActivated
  | EvMeasureToolActivated
  | EvUnregisterProvider

text \<open>\<open>struct Core\<close>, with the log of effects as an additional component.\<close>

record 'f Core =
  mouseCaptureThread :: poll_thread
  screenCaptureThreads :: "capture_thread list"
  stopMouseCaptureThreadSignal :: bool
  overlayUIStates :: "OverlayUIState list"
  measureToolState :: MeasureToolState
  boundsToolState :: "'f BoundsToolState"
  commonState :: "'f CommonState"
  settings :: Settings
  effects :: "event list"

datatype tool = BoundsTool | MeasureTool

text \<open>
  What the orchestrator obtains from collaborators whose code is not part of these
  sources: the settings file, the monitor table, whether a window can be created for a
  monitor, the DPI table, the constants and default values fixed by headers outside
  these sources, and \<open>float\<close> arithmetic.
\<close>

record 'f Env =
  LoadFromFile :: Settings
  GetMonitors :: "MonitorInfo list"
  CreateWindow :: "tool \<Rightarrow> MonitorInfo \<Rightarrow> HWND option"
  ScreenDPI :: "HWND \<rightharpoonup> 32 word"
  DEFAULT_DPI :: int
  Settings_init :: Settings
  Box_init :: Box
  ColorF_OrangeRed :: "'f ColorF"
  float_of :: "int \<Rightarrow> 'f"
  fdiv :: "'f \<Rightarrow> 'f \<Rightarrow> 'f"

section \<open>The orchestrator (PowerToys.MeasureToolCore.cpp)\<close>

definition log_effects :: "event list \<Rightarrow> 'f Core \<Rightarrow> 'f Core" where
  "log_effects evs c = c\<lparr>effects := effects c @ evs\<rparr>"

text \<open>
  \<open>_overlayUIStates.clear()\<close>: every owned surface is destroyed, which destroys its
  window.
\<close>

definition overlayUIStates_clear :: "'f Core \<Rightarrow> 'f Core" where
  "overlayUIStates_clear c =
     log_effects (map (\<lambda>u. EvDestroyOverlay (overlayWindowHandle u)) (overlayUIStates c))
       (c\<lparr>overlayUIStates := []\<rparr>)"

text \<open>
  \<open>for (auto& thread : _screenCaptureThreads) if (thread.joinable()) thread.join();\<close>
  returns the threads as the loop leaves them and the joins it performed.
\<close>

fun join_all :: "capture_thread list \<Rightarrow> capture_thread list \<times> event list" where
  "join_all [] = ([], [])"
| "join_all (t # ts) =
     (let (ts', evs) = join_all ts in
        if joinable t
        then (t\<lparr>joinable := False\<rparr> # ts', EvJoinCaptureThread (thread_window t) # evs)
        else (t # ts', evs))"

text \<open>
  Modelled from the spec: \<open>Serialized<T>::Reset\<close> and \<open>Serialized<T>::Access\<close>
  (common/utils/serialized.h) are not part of the sources. \<open>Reset\<close> "clears" the wrapped
  tool state, that is, replaces it by a value-initialised one; \<open>Access\<close> runs the given
  function on the wrapped value inside the critical section.
\<close>

definition Serialized_Reset :: "MeasureToolState \<Rightarrow> MeasureToolState" where
  "Serialized_Reset s = MeasureToolState_init"

definition Serialized_Access ::
  "(MeasureToolState \<Rightarrow> MeasureToolState) \<Rightarrow> MeasureToolState \<Rightarrow> MeasureToolState" where
  "Serialized_Access fn s = fn s"

definition ResetState :: "'f Env \<Rightarrow> 'f Core \<Rightarrow> 'f Core" where
  "ResetState env c0 =
     (let c1 = c0\<lparr>commonState := (commonState c0)\<lparr>closeOnOtherMonitors := True\<rparr>\<rparr>;
          c2 = overlayUIStates_clear c1;
          c3 = c2\<lparr>boundsToolState :=
                    \<lparr>b_perScreen = Map.empty, b_commonState = addr_commonState\<rparr>\<rparr>;
          (ts, joins) = join_all (screenCaptureThreads c3);
          c4 = log_effects joins (c3\<lparr>screenCaptureThreads := ts\<rparr>);
          c5 = c4\<lparr>screenCaptureThreads := []\<rparr>;
          c6 = c5\<lparr>measureToolState := Serialized_Reset (measureToolState c5)\<rparr>;
          c7 = c6\<lparr>measureToolState :=
                    Serialized_Access (\<lambda>s. s\<lparr>m_commonState := addr_commonState\<rparr>)
                      (measureToolState c6)\<rparr>;
          c8 = log_effects [EvLoadSettings] (c7\<lparr>settings := LoadFromFile env\<rparr>);
          (c0', c1', c2') = settings_lineColor (settings c8);
          c9 = c8\<lparr>commonState := (commonState c8)\<lparr>lineColor := (lineColor (commonState c8))
                    \<lparr>color_r := fdiv env (float_of env (uint c0')) (float_of env 255),
                     color_g := fdiv env (float_of env (uint c1')) (float_of env 255),
                     color_b := fdiv env (float_of env (uint c2')) (float_of env 255)\<rparr>\<rparr>\<rparr>
      in c9\<lparr>commonState := (commonState c9)\<lparr>closeOnOtherMonitors := False\<rparr>\<rparr>)"

text \<open>
  Modelled from the spec: \<open>OverlayUIState::Create\<close> (OverlayUI.h) is not part of the
  sources. It yields a null pointer when the window of the surface cannot be created
  ("skip this monitor"); otherwise it yields the surface, and the per-monitor entry of
  the tool state, keyed by the new window, is created during session setup. The global
  sub-record of the measure tool is written only by the orchestrator.
\<close>

definition OverlayUIState_Create_bounds ::
  "'f Env \<Rightarrow> MonitorInfo \<Rightarrow> 'f Core \<Rightarrow> OverlayUIState option \<times> 'f Core" where
  "OverlayUIState_Create_bounds env monitorInfo c =
     (case CreateWindow env BoundsTool monitorInfo of
        None \<Rightarrow> (None, c)
      | Some h \<Rightarrow>
          (Some \<lparr>overlayWindowHandle = h, overlayMonitor = monitorInfo\<rparr>,
           log_effects [EvCreateOverlay h]
             (c\<lparr>boundsToolState := (boundsToolState c)
                  \<lparr>b_perScreen := (b_perScreen (boundsToolState c))
                      (h \<mapsto> \<lparr>currentRegionStart = None, measurements = []\<rparr>)\<rparr>\<rparr>)))"

definition OverlayUIState_Create_measure ::
  "'f Env \<Rightarrow> MonitorInfo \<Rightarrow> 'f Core \<Rightarrow> OverlayUIState option \<times> 'f Core" where
  "OverlayUIState_Create_measure env monitorInfo c =
     (case CreateWindow env MeasureTool monitorInfo of
        None \<Rightarrow> (None, c)
      | Some h \<Rightarrow>
          (Some \<lparr>overlayWindowHandle = h, overlayMonitor = monitorInfo\<rparr>,
           log_effects [EvCreateOverlay h]
             (c\<lparr>measureToolState := (measureToolState c)
                  \<lparr>m_perScreen := (m_perScreen (measureToolState c))
                      (h \<mapsto> MeasurePerScreen_init)\<rparr>\<rparr>)))"

text \<open>
  Modelled from the spec: \<open>StartCapturingThread\<close> (ScreenCapturing.h) is not part of the
  sources. It starts "a dedicated capture thread bound to that surface's window" and
  returns its \<open>std::thread\<close>, which is joinable.
\<close>

definition StartCapturingThread :: "HWND \<Rightarrow> MonitorInfo \<Rightarrow> capture_thread" where
  "StartCapturingThread window monitorInfo =
     \<lparr>thread_window = window, thread_monitor = monitorInfo, joinable = True\<rparr>"

text \<open>The body of the loop over the monitors in \<open>StartBoundsTool\<close>.\<close>

fun bounds_loop :: "'f Env \<Rightarrow> MonitorInfo list \<Rightarrow> 'f Core \<Rightarrow> 'f Core" where
  "bounds_loop env [] c = c"
| "bounds_loop env (monitorInfo # rest) c =
     (case OverlayUIState_Create_bounds env monitorInfo c of
        (None, c') \<Rightarrow> bounds_loop env rest c'
      | (Some overlayUI, c') \<Rightarrow>
          bounds_loop env rest (c'\<lparr>overlayUIStates := overlayUIStates c' @ [overlayUI]\<rparr>))"

definition StartBoundsTool :: "'f Env \<Rightarrow> 'f Core \<Rightarrow> 'f Core" where
  "StartBoundsTool env c =
     log_effects [EvBoundsToolActivated]
       (bounds_loop env (GetMonitors env) (ResetState env c))"

text \<open>The body of the loop over the monitors in \<open>StartMeasureTool\<close>.\<close>

fun measure_loop :: "'f Env \<Rightarrow> MonitorInfo list \<Rightarrow> 'f Core \<Rightarrow> 'f Core" where
  "measure_loop env [] c = c"
| "measure_loop env (monitorInfo # rest) c =
     (case OverlayUIState_Create_measure env monitorInfo c of
        (None, c') \<Rightarrow> measure_loop env rest c'
      | (Some overlayUI, c') \<Rightarrow>
          (let h = overlayWindowHandle overlayUI;
               c1 = log_effects [EvStartCapturingThread h monitorInfo]
                      (c'\<lparr>screenCaptureThreads :=
                            screenCaptureThreads c' @ [StartCapturingThread h monitorInfo]\<rparr>);
               c2 = c1\<lparr>overlayUIStates := overlayUIStates c1 @ [overlayUI]\<rparr>
           in measure_loop env rest c2))"

definition StartMeasureTool :: "'f Env \<Rightarrow> bool \<Rightarrow> bool \<Rightarrow> 'f Core \<Rightarrow> 'f Core" where
  "StartMeasureTool env horizontal vertical c =
     (let c1 = ResetState env c;
          c2 = c1\<lparr>measureToolState :=
                    Serialized_Access
                      (\<lambda>state.
                         let state1 =
                               (if horizontal
                                then state\<lparr>global := (global state)
                                       \<lparr>mode := (if vertical then Cross else Horizontal)\<rparr>\<rparr>
                                else state\<lparr>global := (global state)\<lparr>mode := Vertical\<rparr>\<rparr>)
                         in state1\<lparr>global := (global state1)
                              \<lparr>continuousCapture := settings_continuousCapture (settings c1),
                               drawFeetOnCross := settings_drawFeetOnCross (settings c1),
                               pixelTolerance := settings_pixelTolerance (settings c1),
                               perColorChannelEdgeDetection :=
                                 settings_perColorChannelEdgeDetection (settings c1)\<rparr>\<rparr>)
                      (measureToolState c1)\<rparr>
      in log_effects [EvMeasureToolActivated] (measure_loop env (GetMonitors env) c2))"


definition SetToolCompletionEvent :: "ToolSessionCompleted \<Rightarrow> 'f Core \<Rightarrow> 'f Core" where
  "SetToolCompletionEvent sessionCompletedTrigger c =
     c\<lparr>commonState := (commonState c)
          \<lparr>sessionCompletedCallback := Some sessionCompletedTrigger\<rparr>\<rparr>"

text \<open>
  \<open>static_cast<long>\<close> of a \<open>uint32_t\<close>: \<open>long\<close> has 32 bits on every Windows target,
  so the result is the value with the same bit pattern in two's complement.
\<close>

definition static_cast_long :: "32 word \<Rightarrow> LONG" where
  "static_cast_long v = sint v"

definition SetToolbarBoundingBox ::
  "32 word \<Rightarrow> 32 word \<Rightarrow> 32 word \<Rightarrow> 32 word \<Rightarrow> 'f Core \<Rightarrow> 'f Core" where
  "SetToolbarBoundingBox fromX fromY toX toY c =
     c\<lparr>commonState := (commonState c)
          \<lparr>toolbarBoundingBox :=
             \<lparr>rect = \<lparr>rect_left = static_cast_long fromX,
                      rect_top = static_cast_long fromY,
                      rect_right = static_cast_long toX,
                      rect_bottom = static_cast_long toY\<rparr>\<rparr>\<rparr>\<rparr>"

text \<open>
  Modelled from the spec: \<open>DPIAware::GetScreenDPIForWindow\<close> (common/display/dpi_aware.h)
  is not part of the sources. It is "a DPI query per window handle" against "a queried
  fact table"; it reports whether the query succeeded, and a failed query does not
  write its \<open>dpi\<close> argument, which is how the caller "falls back to 1.0-equivalent scale
  on query failure".
\<close>

definition GetScreenDPIForWindow :: "'f Env \<Rightarrow> HWND \<Rightarrow> 32 word \<Rightarrow> bool \<times> 32 word" where
  "GetScreenDPIForWindow env hwnd dpi =
     (case ScreenDPI env hwnd of Some d \<Rightarrow> (True, d) | None \<Rightarrow> (False, dpi))"

text \<open>
  \<open>GetDPIScaleForWindow\<close> is a member function; it returns its result together with
  the members as it leaves them. The \<open>HRESULT\<close> of the query is discarded.
\<close>

definition GetDPIScaleForWindow :: "'f Env \<Rightarrow> 64 word \<Rightarrow> 'f Core \<Rightarrow> 'f \<times> 'f Core" where
  "GetDPIScaleForWindow env windowHandle c =
     (let dpi0 = (word_of_int (DEFAULT_DPI env) :: 32 word);
          (succeeded, dpi) = GetScreenDPIForWindow env windowHandle dpi0
      in (fdiv env (float_of env (uint dpi)) (float_of env (DEFAULT_DPI env)), c))"

text \<open>The default member initialisers of \<open>CommonState\<close>, and the constructor.\<close>

definition CommonState_init :: "'f Env \<Rightarrow> 'f CommonState" where
  "CommonState_init env =
     \<lparr>sessionCompletedCallback = None, lineColor = ColorF_OrangeRed env,
      toolbarBoundingBox = Box_init env, overlayBoxText = OverlayBoxText_init,
      cursorPosSystemSpace = POINT_init, closeOnOtherMonitors = False\<rparr>"

definition Core_ctor :: "'f Env \<Rightarrow> 'f Core" where
  "Core_ctor env =
     \<lparr>mouseCaptureThread = PollRunning, screenCaptureThreads = [],
      stopMouseCaptureThreadSignal = False, overlayUIStates = [],
      measureToolState = MeasureToolState_init, boundsToolState = BoundsToolState_init,
      commonState = CommonState_init env, settings = Settings_init env,
      effects = [EvRegisterProvider, EvInitLogger]\<rparr>"

text \<open>
  \<open>_mouseCaptureThread.join()\<close>. \<open>MouseCaptureThread\<close> leaves its loop only once it
  observes the stop event, a manual-reset event that stays signalled, so the join
  returns exactly when the event has been set; on a thread that is not joinable
  \<open>std::thread::join\<close> throws.
\<close>

datatype failure = JoinNotJoinable | JoinNeverReturns

definition mouseCaptureThread_join :: "'f Core \<Rightarrow> failure + 'f Core" where
  "mouseCaptureThread_join c =
     (case mouseCaptureThread c of
        PollJoined \<Rightarrow> Inl JoinNotJoinable
      | PollRunning \<Rightarrow>
          if stopMouseCaptureThreadSignal c
          then Inr (log_effects [EvJoinMouseThread] (c\<lparr>mouseCaptureThread := PollJoined\<rparr>))
          else Inl JoinNeverReturns)"

definition Core_dtor :: "'f Env \<Rightarrow> 'f Core \<Rightarrow> failure + 'f Core" where
  "Core_dtor env c =
     (let c1 = log_effects [EvSetStopEvent] (c\<lparr>stopMouseCaptureThreadSignal := True\<rparr>)
      in case mouseCaptureThread_join c1 of
           Inl e \<Rightarrow> Inl e
         | Inr c2 \<Rightarrow> Inr (log_effects [EvUnregisterProvider] (ResetState env c2)))"


subsection \<open>Writers on other threads\<close>









subsection \<open>The public interface as a sequence of calls\<close>

datatype api_call =
    CallStartBoundsTool
  | CallStartMeasureTool bool bool
  | CallSetToolCompletionEvent ToolSessionCompleted
  | CallSetToolbarBoundingBox "32 word" "32 word" "32 word" "32 word"
  | CallResetState
  | CallGetDPIScaleForWindow "64 word"

fun api_step :: "'f Env \<Rightarrow> 'f Core \<Rightarrow> api_call \<Rightarrow> 'f Core" where
  "api_step env c CallStartBoundsTool = StartBoundsTool env c"
| "api_step env c (CallStartMeasureTool horizontal vertical) =
     StartMeasureTool env horizontal vertical c"
| "api_step env c (CallSetToolCompletionEvent trigger) = SetToolCompletionEvent trigger c"
| "api_step env c (CallSetToolbarBoundingBox fromX fromY toX toY) =
     SetToolbarBoundingBox fromX fromY toX toY c"
| "api_step env c CallResetState = ResetState env c"
| "api_step env c (CallGetDPIScaleForWindow windowHandle) =
     snd (GetDPIScaleForWindow env windowHandle c)"

definition api_run :: "'f Env \<Rightarrow> 'f Core \<Rightarrow> api_call list \<Rightarrow> 'f Core" where
  "api_run env c calls = foldl (api_step env) c calls"

fun is_StartMeasureTool :: "api_call \<Rightarrow> bool" where
  "is_StartMeasureTool (CallStartMeasureTool horizontal vertical) = True"
| "is_StartMeasureTool call = False"

subsection \<open>Vocabulary of the statements\<close>

text \<open>
  The effects of one \<open>ResetState\<close>: the surfaces it destroys, the capture threads it
  joins, and the reload of the settings.
\<close>

definition reset_effects :: "'f Core \<Rightarrow> event list" where
  "reset_effects c =
     map (\<lambda>u. EvDestroyOverlay (overlayWindowHandle u)) (overlayUIStates c) @
     map (\<lambda>t. EvJoinCaptureThread (thread_window t)) (filter joinable (screenCaptureThreads c)) @
     [EvLoadSettings]"

text \<open>The surface \<open>OverlayUIState::Create\<close> yields for a monitor, if any.\<close>

definition created :: "'f Env \<Rightarrow> tool \<Rightarrow> MonitorInfo \<Rightarrow> OverlayUIState option" where
  "created env t m =
     map_option (\<lambda>h. \<lparr>overlayWindowHandle = h, overlayMonitor = m\<rparr>) (CreateWindow env t m)"

subsection \<open>A concrete configuration\<close>

text \<open>
  Three monitors, of which the second cannot get a window; \<open>float\<close> read as exact
  rational arithmetic.
\<close>

definition sample_settings :: Settings where
  "sample_settings =
     \<lparr>settings_continuousCapture = False, settings_drawFeetOnCross = False,
      settings_pixelTolerance = 12, settings_perColorChannelEdgeDetection = True,
      settings_lineColor = (255, 69, 0)\<rparr>"

definition sample_env :: "rat Env" where
  "sample_env =
     \<lparr>LoadFromFile = sample_settings,
      GetMonitors = [0, 1, 2],
      CreateWindow = (\<lambda>t m. if m = 1 then None else Some (of_nat m + 100)),
      ScreenDPI = [100 \<mapsto> 144],
      DEFAULT_DPI = 96,
      Settings_init = sample_settings,
      Box_init = \<lparr>rect = RECT_init\<rparr>,
      ColorF_OrangeRed = \<lparr>color_r = 1, color_g = 69 / 255, color_b = 0, color_a = 1\<rparr>,
      float_of = of_int,
      fdiv = (/)\<rparr>"

definition sample_session :: "rat Core" where
  "sample_session = StartMeasureTool sample_env True True (Core_ctor sample_env)"


section \<open>Properties of the helper loops\<close>

lemma join_all_events:
  "snd (join_all ts) = map (\<lambda>t. EvJoinCaptureThread (thread_window t)) (filter joinable ts)"
  by (induction ts) (simp_all add: case_prod_beta)

lemma join_all_not_joinable:
  "list_all (\<lambda>t. \<not> joinable t) (fst (join_all ts))"
  by (induction ts) (simp_all add: case_prod_beta)

lemma join_all_length:
  "length (fst (join_all ts)) = length ts"
  by (induction ts) (simp_all add: case_prod_beta)

text \<open>What \<open>ResetState\<close> does to each member.\<close>

lemma ResetState_overlayUIStates: "overlayUIStates (ResetState env c) = []"
  by (simp add: ResetState_def Let_def case_prod_beta log_effects_def
       overlayUIStates_clear_def)

lemma ResetState_screenCaptureThreads: "screenCaptureThreads (ResetState env c) = []"
  by (simp add: ResetState_def Let_def case_prod_beta log_effects_def
       overlayUIStates_clear_def)

lemma ResetState_measureToolState:
  "measureToolState (ResetState env c) =
     \<lparr>global = Global_init, m_perScreen = Map.empty, m_commonState = addr_commonState\<rparr>"
  by (simp add: ResetState_def Let_def case_prod_beta log_effects_def
       overlayUIStates_clear_def Serialized_Reset_def Serialized_Access_def
       MeasureToolState_init_def)

lemma ResetState_boundsToolState:
  "boundsToolState (ResetState env c) =
     \<lparr>b_perScreen = Map.empty, b_commonState = addr_commonState\<rparr>"
  by (simp add: ResetState_def Let_def case_prod_beta log_effects_def
       overlayUIStates_clear_def)

lemma ResetState_settings: "settings (ResetState env c) = LoadFromFile env"
  by (simp add: ResetState_def Let_def case_prod_beta log_effects_def
       overlayUIStates_clear_def)

lemma ResetState_mouseCaptureThread:
  "mouseCaptureThread (ResetState env c) = mouseCaptureThread c"
  by (simp add: ResetState_def Let_def case_prod_beta log_effects_def
       overlayUIStates_clear_def)

lemma ResetState_stopMouseCaptureThreadSignal:
  "stopMouseCaptureThreadSignal (ResetState env c) = stopMouseCaptureThreadSignal c"
  by (simp add: ResetState_def Let_def case_prod_beta log_effects_def
       overlayUIStates_clear_def)

lemma ResetState_effects: "effects (ResetState env c) = effects c @ reset_effects c"
  by (simp add: ResetState_def Let_def case_prod_beta log_effects_def
       overlayUIStates_clear_def join_all_events reset_effects_def)

lemma ResetState_commonState:
  "commonState (ResetState env c) =
     (commonState c)
       \<lparr>lineColor := (lineColor (commonState c))
          \<lparr>color_r := fdiv env (float_of env (uint (fst (settings_lineColor (LoadFromFile env)))))
                        (float_of env 255),
           color_g := fdiv env (float_of env (uint (fst (snd (settings_lineColor (LoadFromFile env))))))
                        (float_of env 255),
           color_b := fdiv env (float_of env (uint (snd (snd (settings_lineColor (LoadFromFile env))))))
                        (float_of env 255)\<rparr>,
        closeOnOtherMonitors := False\<rparr>"
  by (simp add: ResetState_def Let_def case_prod_beta log_effects_def
       overlayUIStates_clear_def)

lemmas ResetState_members =
  ResetState_overlayUIStates ResetState_screenCaptureThreads ResetState_measureToolState
  ResetState_boundsToolState ResetState_settings ResetState_mouseCaptureThread
  ResetState_stopMouseCaptureThreadSignal ResetState_effects ResetState_commonState

lemma length_map_filter_le: "length (List.map_filter f xs) \<le> length xs"
  by (simp add: List.map_filter_def)

lemma bounds_loop_overlayUIStates:
  "overlayUIStates (bounds_loop env ms c) =
     overlayUIStates c @ List.map_filter (created env BoundsTool) ms"
  by (induction ms arbitrary: c)
     (simp_all add: OverlayUIState_Create_bounds_def log_effects_def created_def
        split: option.split)

lemma bounds_loop_screenCaptureThreads:
  "screenCaptureThreads (bounds_loop env ms c) = screenCaptureThreads c"
  by (induction ms arbitrary: c)
     (simp_all add: OverlayUIState_Create_bounds_def log_effects_def split: option.split)

lemma bounds_loop_measureToolState:
  "measureToolState (bounds_loop env ms c) = measureToolState c"
  by (induction ms arbitrary: c)
     (simp_all add: OverlayUIState_Create_bounds_def log_effects_def split: option.split)

lemma bounds_loop_effects:
  "effects (bounds_loop env ms c) =
     effects c @ map (\<lambda>u. EvCreateOverlay (overlayWindowHandle u))
                   (List.map_filter (created env BoundsTool) ms)"
  by (induction ms arbitrary: c)
     (simp_all add: OverlayUIState_Create_bounds_def log_effects_def created_def
        split: option.split)

lemma measure_loop_overlayUIStates:
  "overlayUIStates (measure_loop env ms c) =
     overlayUIStates c @ List.map_filter (created env MeasureTool) ms"
  by (induction ms arbitrary: c)
     (simp_all add: OverlayUIState_Create_measure_def log_effects_def created_def
        Let_def split: option.split)

lemma measure_loop_screenCaptureThreads:
  "screenCaptureThreads (measure_loop env ms c) =
     screenCaptureThreads c @
     map (\<lambda>u. StartCapturingThread (overlayWindowHandle u) (overlayMonitor u))
       (List.map_filter (created env MeasureTool) ms)"
  by (induction ms arbitrary: c)
     (simp_all add: OverlayUIState_Create_measure_def log_effects_def created_def
        Let_def split: option.split)

lemma measure_loop_global:
  "global (measureToolState (measure_loop env ms c)) = global (measureToolState c)"
  by (induction ms arbitrary: c)
     (simp_all add: OverlayUIState_Create_measure_def log_effects_def Let_def
        split: option.split)

lemma measure_loop_mouseCaptureThread:
  "mouseCaptureThread (measure_loop env ms c) = mouseCaptureThread c"
  by (induction ms arbitrary: c)
     (simp_all add: OverlayUIState_Create_measure_def log_effects_def Let_def
        split: option.split)

lemma StartMeasureTool_global:
  "global (measureToolState (StartMeasureTool env horizontal vertical c)) =
     \<lparr>pixelTolerance = settings_pixelTolerance (LoadFromFile env),
      continuousCapture = settings_continuousCapture (LoadFromFile env),
      drawFeetOnCross = settings_drawFeetOnCross (LoadFromFile env),
      perColorChannelEdgeDetection = settings_perColorChannelEdgeDetection (LoadFromFile env),
      mode = (if horizontal then (if vertical then Cross else Horizontal) else Vertical)\<rparr>"
  by (simp add: StartMeasureTool_def Let_def log_effects_def measure_loop_global
       Serialized_Access_def ResetState_members Global_init_def)

lemma api_step_keeps_defaults:
  assumes "\<not> is_StartMeasureTool call"
    and "measureToolState c =
           \<lparr>global = Global_init, m_perScreen = Map.empty, m_commonState = addr_commonState\<rparr>"
  shows "measureToolState (api_step env c call) =
           \<lparr>global = Global_init, m_perScreen = Map.empty, m_commonState = addr_commonState\<rparr>"
  using assms
  by (cases call)
     (simp_all add: StartBoundsTool_def log_effects_def bounds_loop_measureToolState
        ResetState_measureToolState SetToolCompletionEvent_def SetToolbarBoundingBox_def
        GetDPIScaleForWindow_def Let_def case_prod_beta)

lemma ResetState_closed_form:
  "ResetState env c =
     c\<lparr>screenCaptureThreads := [], overlayUIStates := [],
       measureToolState :=
         \<lparr>global = Global_init, m_perScreen = Map.empty, m_commonState = addr_commonState\<rparr>,
       boundsToolState := \<lparr>b_perScreen = Map.empty, b_commonState = addr_commonState\<rparr>,
       commonState := commonState (ResetState env c),
       settings := LoadFromFile env,
       effects := effects c @ reset_effects c\<rparr>"
  by (simp add: ResetState_def Let_def case_prod_beta log_effects_def
       overlayUIStates_clear_def Serialized_Reset_def Serialized_Access_def
       MeasureToolState_init_def join_all_events reset_effects_def)

lemma static_cast_long_value:
  "static_cast_long v = (if uint v < 2 ^ 31 then uint v else uint v - 2 ^ 32)"
proof -
  have range: "0 \<le> uint v" "uint v < 2 ^ 32"
    using uint_lt2p [of v] by simp_all
  have "sint v = take_bit 32 (uint v + 2 ^ 31) - 2 ^ 31"
    by (simp add: sint_uint signed_take_bit_eq_take_bit_shift)
  also have "\<dots> = (uint v + 2 ^ 31) mod 2 ^ 32 - 2 ^ 31"
    by (simp add: take_bit_eq_mod)
  also have "\<dots> = (if uint v < 2 ^ 31 then uint v else uint v - 2 ^ 32)"
  proof (cases "uint v < 2 ^ 31")
    case True
    then have "(uint v + 2 ^ 31) mod 2 ^ 32 = uint v + 2 ^ 31"
      using range by simp
    with True show ?thesis by simp
  next
    case False
    then have "(uint v + 2 ^ 31) mod 2 ^ 32 = uint v + 2 ^ 31 - 2 ^ 32"
      using range by (simp add: mod_pos_geq)
    with False show ?thesis by simp
  qed
  finally show ?thesis by (simp add: static_cast_long_def)
qed

lemma static_cast_long_bits: "(word_of_int (static_cast_long v) :: 32 word) = v"
  by (simp add: static_cast_long_def)

section \<open>Writes of other threads during \<open>ResetState\<close>\<close>








section \<open>The concrete configuration, evaluated\<close>

lemma sample_session_overlayUIStates:
  "overlayUIStates sample_session =
     [\<lparr>overlayWindowHandle = 100, overlayMonitor = 0\<rparr>,
      \<lparr>overlayWindowHandle = 102, overlayMonitor = 2\<rparr>]"
  by (simp add: sample_session_def StartMeasureTool_def Let_def log_effects_def
       measure_loop_overlayUIStates ResetState_members)
     (simp add: sample_env_def created_def)

lemma sample_session_screenCaptureThreads:
  "screenCaptureThreads sample_session =
     [\<lparr>thread_window = 100, thread_monitor = 0, joinable = True\<rparr>,
      \<lparr>thread_window = 102, thread_monitor = 2, joinable = True\<rparr>]"
  by (simp add: sample_session_def StartMeasureTool_def Let_def log_effects_def
       measure_loop_screenCaptureThreads ResetState_members)
     (simp add: sample_env_def created_def StartCapturingThread_def)

lemma sample_session_reset_effects:
  "reset_effects sample_session =
     [EvDestroyOverlay 100, EvDestroyOverlay 102,
      EvJoinCaptureThread 100, EvJoinCaptureThread 102, EvLoadSettings]"
  by (simp add: reset_effects_def sample_session_overlayUIStates
       sample_session_screenCaptureThreads)

section \<open>Mode selection\<close>

text \<open>
  C1. \<open>StartMeasureTool(horizontal, vertical)\<close> leaves the mode Cross when both flags are
  set, Horizontal when only \<open>horizontal\<close> is set, and Vertical whenever \<open>horizontal\<close> is
  not set, whatever \<open>vertical\<close> is.
\<close>

theorem StartMeasureTool_mode:
  "mode (global (measureToolState (StartMeasureTool env horizontal vertical c))) =
     (if horizontal then (if vertical then Cross else Horizontal) else Vertical)"
  by (simp add: StartMeasureTool_def Let_def log_effects_def measure_loop_global
       Serialized_Access_def)

theorem StartMeasureTool_mode_witness:
  "mode (global (measureToolState
      (StartMeasureTool sample_env True True (Core_ctor sample_env)))) = Cross \<and>
   mode (global (measureToolState
      (StartMeasureTool sample_env True False (Core_ctor sample_env)))) = Horizontal \<and>
   mode (global (measureToolState
      (StartMeasureTool sample_env False True (Core_ctor sample_env)))) = Vertical \<and>
   mode (global (measureToolState
      (StartMeasureTool sample_env False False (Core_ctor sample_env)))) = Vertical"
  using StartMeasureTool_mode [of sample_env True True "Core_ctor sample_env"]
    StartMeasureTool_mode [of sample_env True False "Core_ctor sample_env"]
    StartMeasureTool_mode [of sample_env False True "Core_ctor sample_env"]
    StartMeasureTool_mode [of sample_env False False "Core_ctor sample_env"]
  by simp

section \<open>Surfaces and capture threads of a session\<close>

text \<open>
  C2. For every list of enumerated monitors, \<open>StartBoundsTool\<close> leaves at most one
  overlay surface per monitor and no capture thread, and starts none: the surfaces are
  exactly those of the monitors, in order, for which the surface could be created; a
  monitor for which it could not is skipped and the remaining monitors are still
  served.
\<close>

theorem StartBoundsTool_surfaces:
  "length (overlayUIStates (StartBoundsTool env c)) \<le> length (GetMonitors env) \<and>
   screenCaptureThreads (StartBoundsTool env c) = [] \<and>
   overlayUIStates (StartBoundsTool env c) =
     List.map_filter (created env BoundsTool) (GetMonitors env) \<and>
   effects (StartBoundsTool env c) =
     effects c @ reset_effects c @
     map (\<lambda>u. EvCreateOverlay (overlayWindowHandle u))
       (List.map_filter (created env BoundsTool) (GetMonitors env)) @
     [EvBoundsToolActivated]"
  by (simp add: StartBoundsTool_def log_effects_def bounds_loop_overlayUIStates
       bounds_loop_screenCaptureThreads bounds_loop_effects ResetState_members
       length_map_filter_le)

theorem StartBoundsTool_surfaces_witness:
  "length (GetMonitors sample_env) = 3 \<and>
   overlayUIStates (StartBoundsTool sample_env sample_session) =
     [\<lparr>overlayWindowHandle = 100, overlayMonitor = 0\<rparr>,
      \<lparr>overlayWindowHandle = 102, overlayMonitor = 2\<rparr>] \<and>
   screenCaptureThreads (StartBoundsTool sample_env sample_session) = []"
  using StartBoundsTool_surfaces [of sample_env sample_session]
  by (simp add: sample_env_def created_def)

text \<open>
  C3. For every list of enumerated monitors, after \<open>StartMeasureTool\<close> there is exactly
  one capture thread per created overlay surface, in the same order, started on that
  surface's window handle and monitor and joinable; the number of threads equals the
  number of surfaces, which is at most the number of monitors.
\<close>

theorem StartMeasureTool_threads:
  "screenCaptureThreads (StartMeasureTool env horizontal vertical c) =
     map (\<lambda>u. \<lparr>thread_window = overlayWindowHandle u, thread_monitor = overlayMonitor u,
               joinable = True\<rparr>)
       (overlayUIStates (StartMeasureTool env horizontal vertical c)) \<and>
   length (screenCaptureThreads (StartMeasureTool env horizontal vertical c)) =
     length (overlayUIStates (StartMeasureTool env horizontal vertical c)) \<and>
   length (overlayUIStates (StartMeasureTool env horizontal vertical c)) \<le>
     length (GetMonitors env) \<and>
   overlayUIStates (StartMeasureTool env horizontal vertical c) =
     List.map_filter (created env MeasureTool) (GetMonitors env)"
  by (simp add: StartMeasureTool_def Let_def log_effects_def measure_loop_overlayUIStates
       measure_loop_screenCaptureThreads ResetState_members length_map_filter_le
       StartCapturingThread_def)

theorem StartMeasureTool_threads_witness:
  "screenCaptureThreads (StartMeasureTool sample_env True True (Core_ctor sample_env)) =
     [\<lparr>thread_window = 100, thread_monitor = 0, joinable = True\<rparr>,
      \<lparr>thread_window = 102, thread_monitor = 2, joinable = True\<rparr>] \<and>
   overlayUIStates (StartMeasureTool sample_env True True (Core_ctor sample_env)) =
     [\<lparr>overlayWindowHandle = 100, overlayMonitor = 0\<rparr>,
      \<lparr>overlayWindowHandle = 102, overlayMonitor = 2\<rparr>]"
  using StartMeasureTool_threads [of sample_env True True "Core_ctor sample_env"]
  by (simp add: sample_env_def created_def)

section \<open>Teardown\<close>

text \<open>
  C4. For every prior state, after \<open>ResetState\<close> the list of overlay surfaces and the
  list of capture threads are empty; the call destroyed every surface it held and
  joined every capture thread that was joinable, so that the thread list is cleared
  with no joinable thread in it. A second \<open>ResetState\<close> right after the first finds
  nothing to destroy or join: it only reloads the settings and leaves every member as
  the first call left it.
\<close>

theorem ResetState_idempotent:
  "overlayUIStates (ResetState env c) = [] \<and>
   screenCaptureThreads (ResetState env c) = [] \<and>
   list_all (\<lambda>t. \<not> joinable t) (fst (join_all (screenCaptureThreads c))) \<and>
   effects (ResetState env c) = effects c @ reset_effects c \<and>
   (\<forall>t \<in> set (screenCaptureThreads c).
      joinable t \<longrightarrow> EvJoinCaptureThread (thread_window t) \<in> set (reset_effects c)) \<and>
   (\<forall>u \<in> set (overlayUIStates c).
      EvDestroyOverlay (overlayWindowHandle u) \<in> set (reset_effects c)) \<and>
   reset_effects (ResetState env c) = [EvLoadSettings] \<and>
   ResetState env (ResetState env c) =
     (ResetState env c)\<lparr>effects := effects (ResetState env c) @ [EvLoadSettings]\<rparr>"
proof -
  have joined: "\<forall>t \<in> set (screenCaptureThreads c).
      joinable t \<longrightarrow> EvJoinCaptureThread (thread_window t) \<in> set (reset_effects c)"
    by (auto simp: reset_effects_def)
  have destroyed: "\<forall>u \<in> set (overlayUIStates c).
      EvDestroyOverlay (overlayWindowHandle u) \<in> set (reset_effects c)"
    by (auto simp: reset_effects_def)
  have second: "reset_effects (ResetState env c) = [EvLoadSettings]"
    by (simp add: reset_effects_def ResetState_members)
  have twice: "ResetState env (ResetState env c) =
      (ResetState env c)\<lparr>effects := effects (ResetState env c) @ [EvLoadSettings]\<rparr>"
    by (subst ResetState_closed_form [of env "ResetState env c"], subst second,
        subst (2 3) ResetState_closed_form [of env c])
       (simp add: ResetState_members)
  show ?thesis
    using joined destroyed second twice
    by (simp add: ResetState_members join_all_not_joinable)
qed

theorem ResetState_idempotent_witness:
  "overlayUIStates (ResetState sample_env sample_session) = [] \<and>
   screenCaptureThreads (ResetState sample_env sample_session) = [] \<and>
   EvJoinCaptureThread 100 \<in> set (reset_effects sample_session) \<and>
   EvJoinCaptureThread 102 \<in> set (reset_effects sample_session) \<and>
   EvDestroyOverlay 100 \<in> set (reset_effects sample_session) \<and>
   EvDestroyOverlay 102 \<in> set (reset_effects sample_session) \<and>
   reset_effects (ResetState sample_env sample_session) = [EvLoadSettings]"
  using ResetState_idempotent [of sample_env sample_session]
  by (simp add: sample_session_overlayUIStates sample_session_screenCaptureThreads)


text \<open>
  C7. The destructor of a live orchestrator returns, and it performs its teardown in
  this order: it sets the stop event of the cursor poll thread, then joins that thread,
  then runs \<open>ResetState\<close> on a state in which the poll thread is already joined, and
  only then unregisters tracing. Joining before the stop event is set would never
  return.
\<close>

theorem Core_dtor_order:
  assumes "mouseCaptureThread c = PollRunning"
  shows "\<exists>c2. mouseCaptureThread_join
                (log_effects [EvSetStopEvent] (c\<lparr>stopMouseCaptureThreadSignal := True\<rparr>)) =
                Inr c2 \<and>
              mouseCaptureThread c2 = PollJoined \<and>
              effects c2 = effects c @ [EvSetStopEvent, EvJoinMouseThread] \<and>
              Core_dtor env c = Inr (log_effects [EvUnregisterProvider] (ResetState env c2)) \<and>
              effects (log_effects [EvUnregisterProvider] (ResetState env c2)) =
                effects c @ [EvSetStopEvent, EvJoinMouseThread] @ reset_effects c @
                [EvUnregisterProvider] \<and>
              (\<not> stopMouseCaptureThreadSignal c \<longrightarrow>
                 mouseCaptureThread_join c = Inl JoinNeverReturns)"
  using assms
  by (simp add: Core_dtor_def mouseCaptureThread_join_def log_effects_def Let_def
       ResetState_effects reset_effects_def)

theorem Core_dtor_order_witness:
  "\<exists>c'. Core_dtor sample_env sample_session = Inr c' \<and>
         drop (length (effects sample_session)) (effects c') =
           [EvSetStopEvent, EvJoinMouseThread,
            EvDestroyOverlay 100, EvDestroyOverlay 102,
            EvJoinCaptureThread 100, EvJoinCaptureThread 102, EvLoadSettings,
            EvUnregisterProvider]"
proof -
  have running: "mouseCaptureThread sample_session = PollRunning"
    by (simp add: sample_session_def StartMeasureTool_def Let_def log_effects_def
         measure_loop_mouseCaptureThread ResetState_members Core_ctor_def)
  show ?thesis
    using Core_dtor_order [OF running, of sample_env]
    by (auto simp: sample_session_reset_effects)
qed

section \<open>The state shared by the tools\<close>




text \<open>
  C10. After \<open>ResetState\<close>, and after any further calls of the public interface other
  than \<open>StartMeasureTool\<close>, the measure tool state holds the defaults: pixel tolerance
  30, continuous capture and feet on cross enabled, per-channel edge detection
  disabled, mode Cross, and an empty per-monitor map. \<open>StartMeasureTool\<close> then
  overwrites the global sub-record with the values of the settings snapshot and the
  mode selected by its flags.
\<close>

theorem ResetState_measure_defaults:
  assumes "\<forall>call \<in> set calls. \<not> is_StartMeasureTool call"
  shows "measureToolState (api_run env (ResetState env c) calls) =
           \<lparr>global = \<lparr>pixelTolerance = 30, continuousCapture = True, drawFeetOnCross = True,
                       perColorChannelEdgeDetection = False, mode = Cross\<rparr>,
            m_perScreen = Map.empty, m_commonState = addr_commonState\<rparr> \<and>
         global (measureToolState (StartMeasureTool env horizontal vertical
             (api_run env (ResetState env c) calls))) =
           \<lparr>pixelTolerance = settings_pixelTolerance (LoadFromFile env),
            continuousCapture = settings_continuousCapture (LoadFromFile env),
            drawFeetOnCross = settings_drawFeetOnCross (LoadFromFile env),
            perColorChannelEdgeDetection =
              settings_perColorChannelEdgeDetection (LoadFromFile env),
            mode = (if horizontal then (if vertical then Cross else Horizontal)
                    else Vertical)\<rparr>"
proof -
  have "measureToolState (api_run env (ResetState env c) calls) =
          measureToolState (ResetState env c)"
    unfolding api_run_def using assms
  proof (induction calls rule: rev_induct)
    case Nil
    show ?case by simp
  next
    case (snoc call calls)
    then have "\<not> is_StartMeasureTool call"
      and "measureToolState (foldl (api_step env) (ResetState env c) calls) =
           measureToolState (ResetState env c)"
      by simp_all
    then show ?case
      by (simp add: api_step_keeps_defaults ResetState_measureToolState)
  qed
  then show ?thesis
    by (simp add: ResetState_measureToolState Global_init_def StartMeasureTool_global)
qed

theorem ResetState_measure_defaults_witness:
  "measureToolState (api_run sample_env (ResetState sample_env sample_session)
      [CallStartBoundsTool, CallSetToolbarBoundingBox 1 2 3 4, CallSetToolCompletionEvent 7,
       CallGetDPIScaleForWindow 100, CallResetState]) =
     \<lparr>global = \<lparr>pixelTolerance = 30, continuousCapture = True, drawFeetOnCross = True,
                 perColorChannelEdgeDetection = False, mode = Cross\<rparr>,
      m_perScreen = Map.empty, m_commonState = addr_commonState\<rparr> \<and>
   global (measureToolState (StartMeasureTool sample_env True False
      (api_run sample_env (ResetState sample_env sample_session)
        [CallStartBoundsTool, CallSetToolbarBoundingBox 1 2 3 4, CallSetToolCompletionEvent 7,
         CallGetDPIScaleForWindow 100, CallResetState]))) =
     \<lparr>pixelTolerance = 12, continuousCapture = False, drawFeetOnCross = False,
      perColorChannelEdgeDetection = True, mode = Horizontal\<rparr>"
  using ResetState_measure_defaults [of
      "[CallStartBoundsTool, CallSetToolbarBoundingBox 1 2 3 4, CallSetToolCompletionEvent 7,
        CallGetDPIScaleForWindow 100, CallResetState]" sample_env sample_session True False]
  by (simp add: sample_env_def sample_settings_def)

section \<open>Queries and the toolbar rectangle\<close>

text \<open>
  C6. \<open>GetDPIScaleForWindow\<close> changes no member of the orchestrator. It returns the
  \<open>float\<close> quotient of the DPI found for the window and the default DPI, and when the
  query finds none, the quotient of the default DPI and itself. (The default DPI is a
  constant that fits the \<open>UINT\<close> it is stored in.)
\<close>

theorem GetDPIScaleForWindow_scale:
  assumes "0 \<le> DEFAULT_DPI env" and "DEFAULT_DPI env < 2 ^ 32"
  shows "snd (GetDPIScaleForWindow env windowHandle c) = c \<and>
         fst (GetDPIScaleForWindow env windowHandle c) =
           (case ScreenDPI env windowHandle of
              Some d \<Rightarrow> fdiv env (float_of env (uint d)) (float_of env (DEFAULT_DPI env))
            | None \<Rightarrow>
                fdiv env (float_of env (DEFAULT_DPI env)) (float_of env (DEFAULT_DPI env)))"
proof -
  have "uint (word_of_int (DEFAULT_DPI env) :: 32 word) = DEFAULT_DPI env"
    using assms by (simp add: uint_word_of_int take_bit_int_eq_self)
  then show ?thesis
    by (simp add: GetDPIScaleForWindow_def GetScreenDPIForWindow_def Let_def
         split: option.split)
qed

theorem GetDPIScaleForWindow_scale_witness:
  "fst (GetDPIScaleForWindow sample_env 100 sample_session) = 3 / 2 \<and>
   fst (GetDPIScaleForWindow sample_env 101 sample_session) = 1 \<and>
   snd (GetDPIScaleForWindow sample_env 101 sample_session) = sample_session"
proof -
  have lo: "0 \<le> DEFAULT_DPI sample_env" and hi: "DEFAULT_DPI sample_env < 2 ^ 32"
    by (simp_all add: sample_env_def)
  show ?thesis
    using GetDPIScaleForWindow_scale [OF lo hi, of 100 sample_session]
      GetDPIScaleForWindow_scale [OF lo hi, of 101 sample_session]
    by (simp add: sample_env_def)
qed

text \<open>
  C9 (as amended). For every four unsigned 32-bit arguments, \<open>SetToolbarBoundingBox\<close>
  stores each argument converted to a 32-bit signed \<open>LONG\<close>: an argument below \<open>2^31\<close>
  is stored as it is, an argument of \<open>2^31\<close> or more is stored as the argument minus
  \<open>2^32\<close>. In both cases the stored value has the bit pattern of the argument, and no
  other member changes.
\<close>

theorem SetToolbarBoundingBox_stored:
  "rect (toolbarBoundingBox (commonState (SetToolbarBoundingBox fromX fromY toX toY c))) =
     \<lparr>rect_left = (if uint fromX < 2 ^ 31 then uint fromX else uint fromX - 2 ^ 32),
      rect_top = (if uint fromY < 2 ^ 31 then uint fromY else uint fromY - 2 ^ 32),
      rect_right = (if uint toX < 2 ^ 31 then uint toX else uint toX - 2 ^ 32),
      rect_bottom = (if uint toY < 2 ^ 31 then uint toY else uint toY - 2 ^ 32)\<rparr> \<and>
   (word_of_int (rect_left (rect (toolbarBoundingBox
       (commonState (SetToolbarBoundingBox fromX fromY toX toY c))))) :: 32 word) = fromX \<and>
   (word_of_int (rect_top (rect (toolbarBoundingBox
       (commonState (SetToolbarBoundingBox fromX fromY toX toY c))))) :: 32 word) = fromY \<and>
   (word_of_int (rect_right (rect (toolbarBoundingBox
       (commonState (SetToolbarBoundingBox fromX fromY toX toY c))))) :: 32 word) = toX \<and>
   (word_of_int (rect_bottom (rect (toolbarBoundingBox
       (commonState (SetToolbarBoundingBox fromX fromY toX toY c))))) :: 32 word) = toY \<and>
   SetToolbarBoundingBox fromX fromY toX toY c =
     c\<lparr>commonState := (commonState c)
          \<lparr>toolbarBoundingBox :=
             toolbarBoundingBox (commonState (SetToolbarBoundingBox fromX fromY toX toY c))\<rparr>\<rparr>"
  by (simp add: SetToolbarBoundingBox_def static_cast_long_bits)
     (simp add: static_cast_long_value)

theorem SetToolbarBoundingBox_stored_witness:
  "rect (toolbarBoundingBox (commonState
      (SetToolbarBoundingBox 10 20 4294967295 2147483648 sample_session))) =
     \<lparr>rect_left = 10, rect_top = 20, rect_right = - 1, rect_bottom = - 2147483648\<rparr>"
  using SetToolbarBoundingBox_stored [of 10 20 4294967295 2147483648 sample_session]
  by simp

text \<open>
  C9 as stated fails at \<open>fromX = 2^31\<close>: the stored left edge is \<open>- 2^31\<close>, not \<open>2^31\<close>.
\<close>

theorem SetToolbarBoundingBox_counterexample:
  "rect_left (rect (toolbarBoundingBox (commonState
      (SetToolbarBoundingBox 2147483648 0 0 0 (Core_ctor sample_env))))) = - 2147483648 \<and>
   rect_left (rect (toolbarBoundingBox (commonState
      (SetToolbarBoundingBox 2147483648 0 0 0 (Core_ctor sample_env))))) \<noteq>
     uint (2147483648 :: 32 word)"
  by (simp add: SetToolbarBoundingBox_def static_cast_long_def)

end
